theory Spec2Isabelle
  imports Complex_Main "HOL-Library.Multiset"
begin

section \<open>Data model (SimCanvas.tsx)\<close>

text \<open>
  JavaScript numbers are modelled as real numbers, so all arithmetic below is exact;
  identifiers (\<open>batchdetailid\<close> and the like) are integers.  A position or a size
  \<open>[number, number, number]\<close> is a triple.  The literal union \<open>0 | 1 | 2 | 3 | 4 | 5\<close>
  of the \<open>rotation\<close> field is a datatype with six values.  The \<open>mastertype\<close> tag of the
  source (\<open>'product'\<close>, \<open>'sim_batch'\<close>, \<open>undefined\<close>) is the constructor of the tagged
  unions \<open>SimBox\<close> and \<open>Detail\<close>.  The fields shared by \<open>SimProduct\<close> and \<open>SimPallet\<close>
  are the record \<open>SimItem\<close> that both extend.
\<close>

type_synonym vec3 = "real \<times> real \<times> real"

datatype rotation = R0 | R1 | R2 | R3 | R4 | R5

record SimItem =
  batchdetailid :: int
  masterid :: int
  code :: string
  name :: string
  length' :: real
  width :: real
  height :: real
  color :: string
  position :: vec3
  rotation :: rotation

record SimProduct = SimItem +
  maxstack :: real
  isfragile :: bool
  istop :: bool
  notstack :: bool
  issideUp :: bool
  no :: "real option"
  qtt :: real

record SimOrder =
  orderid :: int
  ordername :: string
  ordernumber :: string
  products :: "SimProduct list"

record SimPallet = SimItem +
  loadlength :: real
  loadwidth :: real
  loadheight :: real
  orders :: "SimOrder list"

datatype batchtype = pallet | container

datatype Detail = Order SimOrder | SubPallet SimPallet

record SimBatch =
  batchid :: int
  batchname :: string
  batchtype :: batchtype
  length' :: real
  width :: real
  height :: real
  loadlength :: real
  loadwidth :: real
  loadheight :: real
  color :: string
  details :: "Detail list"

datatype SimBox = Pallet SimPallet | Product SimProduct

text \<open>Field access on the union \<open>SimPallet | SimProduct\<close>.\<close>

fun item_id :: "SimBox \<Rightarrow> int" where
  "item_id (Pallet p) = batchdetailid p"
| "item_id (Product p) = batchdetailid p"

fun item_length :: "SimBox \<Rightarrow> real" where
  "item_length (Pallet p) = SimItem.length' p"
| "item_length (Product p) = SimItem.length' p"

fun item_width :: "SimBox \<Rightarrow> real" where
  "item_width (Pallet p) = SimItem.width p"
| "item_width (Product p) = SimItem.width p"

fun item_height :: "SimBox \<Rightarrow> real" where
  "item_height (Pallet p) = SimItem.height p"
| "item_height (Product p) = SimItem.height p"

fun item_position :: "SimBox \<Rightarrow> vec3" where
  "item_position (Pallet p) = position p"
| "item_position (Product p) = position p"

fun item_rotation :: "SimBox \<Rightarrow> rotation" where
  "item_rotation (Pallet p) = rotation p"
| "item_rotation (Product p) = rotation p"

fun is_sim_batch :: "SimBox \<Rightarrow> bool" where
  "is_sim_batch (Pallet p) = True"
| "is_sim_batch (Product p) = False"

section \<open>Spatial model (MoveModel.tsx)\<close>

text \<open>
  \<open>getRotDim\<close>: the \<open>switch\<close> on \<open>item.rotation\<close>.  Its \<open>default\<close> branch repeats the
  branch of code 0 and cannot be reached at the type of the field.
\<close>

definition getRotDim :: "SimBox \<Rightarrow> vec3" where
  "getRotDim item =
    (let loadHeight = (case item of Pallet p \<Rightarrow> SimPallet.loadheight p | Product p \<Rightarrow> 0)
     in case item_rotation item of
          R0 \<Rightarrow> (item_length item, item_height item + loadHeight, item_width item)
        | R1 \<Rightarrow> (item_width item, item_height item + loadHeight, item_length item)
        | R2 \<Rightarrow> (item_height item + loadHeight, item_length item, item_width item)
        | R3 \<Rightarrow> (item_width item, item_length item, item_height item + loadHeight)
        | R4 \<Rightarrow> (item_length item, item_width item, item_height item + loadHeight)
        | R5 \<Rightarrow> (item_height item + loadHeight, item_width item, item_length item))"

text \<open>
  The helpers of \<open>MoveModel\<close> close over \<open>props.renderScale\<close> and \<open>props.contSize\<close>;
  here they take them as their first argument.
\<close>

definition adjustScale :: "real \<Rightarrow> vec3 \<Rightarrow> vec3" where
  "adjustScale renderScale sz =
    (case sz of (a, b, c) \<Rightarrow> (a / renderScale, b / renderScale, c / renderScale))"


definition adjustPos :: "vec3 \<Rightarrow> vec3 \<Rightarrow> vec3 \<Rightarrow> vec3" where
  "adjustPos contSize pos sz =
    (case (contSize, pos, sz) of ((c0, c1, c2), (p0, p1, p2), (s0, s1, s2)) \<Rightarrow>
       (p0 + ((s0 - c0) / 2), p1 + (s1 / 2), p2 + ((s2 - c2) / 2)))"


section \<open>Collision-constrained drag resolver (MoveModel.tsx)\<close>

text \<open>
  The properties of the component that the resolver reads.  \<open>matrix\<close> is the local
  \<open>THREE.Matrix4\<close> of the component; only its position is used, and \<open>onDrag\<close> is the
  only code that changes it, so the resolver takes that position as the argument
  \<open>matrixPos\<close>.
\<close>

record MoveProps =
  allItems :: "SimBox list"
  contSize :: vec3
  data :: SimBox
  renderScale :: real

text \<open>
  Indexing a triple: \<open>v[0]\<close>, \<open>v[1]\<close>, \<open>v[2]\<close>.  The source only uses the indices 0, 1
  and 2 (as literals, or as \<open>Math.floor(id / 2)\<close> with \<open>id\<close> below 6).
\<close>

fun vnth :: "vec3 \<Rightarrow> nat \<Rightarrow> real" where
  "vnth (x, y, z) i = (if i = 0 then x else if i = 1 then y else z)"

definition boxOrien :: "MoveProps \<Rightarrow> vec3" where
  "boxOrien props = adjustScale (renderScale props) (getRotDim (data props))"

text \<open>
  The expression
  \<open>adjustScale(adjustPos([box.position[0], box.position[2], box.position[1]], getRotDim(box)))\<close>
  occurs three times in the source (\<open>boxPos\<close>, \<open>box_pos\<close>, \<open>intBoxPos\<close>).
\<close>

definition box_pos :: "MoveProps \<Rightarrow> SimBox \<Rightarrow> vec3" where
  "box_pos props box =
    adjustScale (renderScale props)
      (adjustPos (contSize props)
         (vnth (item_position box) 0, vnth (item_position box) 2, vnth (item_position box) 1)
         (getRotDim box))"

definition boxPos :: "MoveProps \<Rightarrow> vec3" where
  "boxPos props = box_pos props (data props)"

definition rotatedDim :: "MoveProps \<Rightarrow> SimBox \<Rightarrow> vec3" where
  "rotatedDim props box = adjustScale (renderScale props) (getRotDim box)"

definition box_min :: "MoveProps \<Rightarrow> SimBox \<Rightarrow> vec3" where
  "box_min props box =
    (vnth (box_pos props box) 0 - (vnth (rotatedDim props box) 0 / 2),
     vnth (box_pos props box) 1 - (vnth (rotatedDim props box) 1 / 2),
     vnth (box_pos props box) 2 - (vnth (rotatedDim props box) 2 / 2))"

definition box_max :: "MoveProps \<Rightarrow> SimBox \<Rightarrow> vec3" where
  "box_max props box =
    (vnth (box_pos props box) 0 + (vnth (rotatedDim props box) 0 / 2),
     vnth (box_pos props box) 1 + (vnth (rotatedDim props box) 1 / 2),
     vnth (box_pos props box) 2 + (vnth (rotatedDim props box) 2 / 2))"

definition adjustedContSize :: "MoveProps \<Rightarrow> vec3" where
  "adjustedContSize props = adjustScale (renderScale props) (contSize props)"

definition pallet_min :: "MoveProps \<Rightarrow> vec3" where
  "pallet_min props =
    ((vnth (boxOrien props) 0 - vnth (adjustedContSize props) 0) / 2,
     vnth (boxOrien props) 1 / 2,
     (vnth (boxOrien props) 2 - vnth (adjustedContSize props) 2) / 2)"

definition pallet_max :: "MoveProps \<Rightarrow> vec3" where
  "pallet_max props =
    ((vnth (adjustedContSize props) 0 - vnth (boxOrien props) 0) / 2,
     vnth (adjustedContSize props) 1 - (vnth (boxOrien props) 1 / 2),
     (vnth (adjustedContSize props) 2 - vnth (boxOrien props) 2) / 2)"

definition pallet_minmax :: "MoveProps \<Rightarrow> real list" where
  "pallet_minmax props =
    [vnth (pallet_min props) 0, vnth (pallet_max props) 0,
     vnth (pallet_min props) 1, vnth (pallet_max props) 1,
     vnth (pallet_min props) 2, vnth (pallet_max props) 2]"

definition PosArray_min :: "MoveProps \<Rightarrow> vec3 \<Rightarrow> vec3" where
  "PosArray_min props newPosArray =
    (vnth newPosArray 0 - (vnth (boxOrien props) 0 / 2),
     vnth newPosArray 1 - (vnth (boxOrien props) 1 / 2),
     vnth newPosArray 2 - (vnth (boxOrien props) 2 / 2))"

definition PosArray_max :: "MoveProps \<Rightarrow> vec3 \<Rightarrow> vec3" where
  "PosArray_max props newPosArray =
    (vnth newPosArray 0 + (vnth (boxOrien props) 0 / 2),
     vnth newPosArray 1 + (vnth (boxOrien props) 1 / 2),
     vnth newPosArray 2 + (vnth (boxOrien props) 2 / 2))"

text \<open>
  The intersection test of the scan: the bounding box of the dragged item at
  \<open>newPosArray\<close> against the bounding box of \<open>box\<close>, strict on all three axes.
\<close>

definition intersects :: "MoveProps \<Rightarrow> vec3 \<Rightarrow> SimBox \<Rightarrow> bool" where
  "intersects props newPosArray box =
    (\<not> ((vnth (box_min props box) 0 \<ge> vnth (PosArray_max props newPosArray) 0
           \<or> vnth (PosArray_min props newPosArray) 0 \<ge> vnth (box_max props box) 0)
        \<or> (vnth (box_min props box) 1 \<ge> vnth (PosArray_max props newPosArray) 1
           \<or> vnth (PosArray_min props newPosArray) 1 \<ge> vnth (box_max props box) 1)
        \<or> (vnth (box_min props box) 2 \<ge> vnth (PosArray_max props newPosArray) 2
           \<or> vnth (PosArray_min props newPosArray) 2 \<ge> vnth (box_max props box) 2)))"


text \<open>
  The first \<open>reduce\<close> of \<open>getNewPos\<close>: it walks the whole list from the left and
  overwrites the accumulator at every box that is not the dragged one and intersects.
\<close>

definition scan_step ::
  "MoveProps \<Rightarrow> vec3 \<Rightarrow> (SimBox \<times> nat) option \<Rightarrow> SimBox \<times> nat \<Rightarrow> (SimBox \<times> nat) option" where
  "scan_step props newPosArray ret bi =
    (case bi of (box, index) \<Rightarrow>
       if \<not> (item_id box = item_id (data props)) then
         (if intersects props newPosArray box then Some (box, index) else ret)
       else ret)"

definition intersectingBox ::
  "MoveProps \<Rightarrow> SimBox list \<Rightarrow> vec3 \<Rightarrow> (SimBox \<times> nat) option" where
  "intersectingBox props boxes newPosArray =
    foldl (scan_step props newPosArray) None (zip boxes [0..<length boxes])"

text \<open>The six candidate positions and the six penetration depths, face by face.\<close>

definition adjustedPos :: "MoveProps \<Rightarrow> SimBox \<Rightarrow> real list" where
  "adjustedPos props ib =
    [vnth (box_min props ib) 0 - (vnth (boxOrien props) 0 / 2),
     vnth (box_max props ib) 0 + (vnth (boxOrien props) 0 / 2),
     vnth (box_min props ib) 1 - (vnth (boxOrien props) 1 / 2),
     vnth (box_max props ib) 1 + (vnth (boxOrien props) 1 / 2),
     vnth (box_min props ib) 2 - (vnth (boxOrien props) 2 / 2),
     vnth (box_max props ib) 2 + (vnth (boxOrien props) 2 / 2)]"

definition intersections :: "MoveProps \<Rightarrow> SimBox \<Rightarrow> vec3 \<Rightarrow> real list" where
  "intersections props ib newPosArray =
    [vnth (PosArray_max props newPosArray) 0 - vnth (box_min props ib) 0,
     vnth (box_max props ib) 0 - vnth (PosArray_min props newPosArray) 0,
     vnth (PosArray_max props newPosArray) 1 - vnth (box_min props ib) 1,
     vnth (box_max props ib) 1 - vnth (PosArray_min props newPosArray) 1,
     vnth (PosArray_max props newPosArray) 2 - vnth (box_min props ib) 2,
     vnth (box_max props ib) 2 - vnth (PosArray_min props newPosArray) 2]"

text \<open>
  The second \<open>reduce\<close>: the accumulator \<open>[null, null]\<close> is \<open>None\<close>, a pair
  \<open>[id, intersect]\<close> is \<open>Some (id, intersect)\<close>.
\<close>

definition min_step ::
  "MoveProps \<Rightarrow> SimBox \<Rightarrow> vec3 \<Rightarrow> vec3 \<Rightarrow> (nat \<times> real) option \<Rightarrow> real \<times> nat
     \<Rightarrow> (nat \<times> real) option" where
  "min_step props ib PosArray newPosArray ret ii =
    (case ii of (intersect, id') \<Rightarrow>
       if vnth newPosArray (id' div 2) \<noteq> vnth PosArray (id' div 2) then ret
       else if id' mod 2 = 0 \<and> pallet_minmax props ! id' > adjustedPos props ib ! id' then ret
       else if id' mod 2 = 1 \<and> pallet_minmax props ! id' < adjustedPos props ib ! id' then ret
       else (case ret of
               None \<Rightarrow> Some (id', intersect)
             | Some (rid, rint) \<Rightarrow>
                 if intersect > 0 \<and> rint > intersect then Some (id', intersect) else ret))"

definition min_intersection ::
  "MoveProps \<Rightarrow> SimBox \<Rightarrow> vec3 \<Rightarrow> vec3 \<Rightarrow> (nat \<times> real) option" where
  "min_intersection props ib PosArray newPosArray =
    foldl (min_step props ib PosArray newPosArray) None
      (zip (intersections props ib newPosArray)
           [0..<length (intersections props ib newPosArray)])"

text \<open>\<open>newPosArray.map\<close> replacing the coordinate of the chosen axis.\<close>

definition tempPosArray :: "MoveProps \<Rightarrow> SimBox \<Rightarrow> vec3 \<Rightarrow> nat \<Rightarrow> vec3" where
  "tempPosArray props ib newPosArray mi =
    (if 0 = mi div 2 then adjustedPos props ib ! mi else vnth newPosArray 0,
     if 1 = mi div 2 then adjustedPos props ib ! mi else vnth newPosArray 1,
     if 2 = mi div 2 then adjustedPos props ib ! mi else vnth newPosArray 2)"

text \<open>\<open>boxes.filter((element, i) => i !== index)\<close>.\<close>

definition filter_index :: "'a list \<Rightarrow> nat \<Rightarrow> 'a list" where
  "filter_index boxes index =
    map fst (filter (\<lambda>ei. snd ei \<noteq> index) (zip boxes [0..<length boxes]))"

text \<open>
  One activation of \<open>getNewPos\<close>: it either returns a position or calls itself with a
  new list and a new working position (the target \<open>PosArray\<close> is passed on as it is).
\<close>

datatype outcome = Return vec3 | Recurse "SimBox list" vec3

definition getNewPos_body ::
  "MoveProps \<Rightarrow> vec3 \<Rightarrow> SimBox list \<Rightarrow> vec3 \<Rightarrow> vec3 option \<Rightarrow> outcome" where
  "getNewPos_body props matrixPos boxes PosArray newPosArrayOpt =
    (let newPosArray = (case newPosArrayOpt of None \<Rightarrow> PosArray | Some n \<Rightarrow> n)
     in case intersectingBox props boxes newPosArray of
          None \<Rightarrow> Return newPosArray
        | Some (ib, index) \<Rightarrow>
            (case min_intersection props ib PosArray newPosArray of
               None \<Rightarrow> Recurse (filter_index boxes index) matrixPos
             | Some (mi, d) \<Rightarrow>
                 Recurse (filter_index boxes index) (tempPosArray props ib newPosArray mi)))"

text \<open>
  Every self-call of \<open>getNewPos\<close> passes a shorter list, which is what makes the
  recursion a total function.
\<close>

lemma zip_upt_snoc:
  "zip (xs @ [x]) [0..<length (xs @ [x])] = zip xs [0..<length xs] @ [(x, length xs)]"
  by simp

lemma filter_index_snoc:
  "filter_index (xs @ [x]) k
     = (if k = length xs then filter_index xs k else filter_index xs k @ [x])"
  unfolding filter_index_def zip_upt_snoc by simp

lemma filter_index_ge: "length xs \<le> k \<Longrightarrow> filter_index xs k = xs"
  by (induction xs rule: rev_induct) (simp_all add: filter_index_def)

lemma filter_index_eq:
  "k < length xs \<Longrightarrow> filter_index xs k = take k xs @ drop (Suc k) xs"
proof (induction xs rule: rev_induct)
  case Nil
  then show ?case by simp
next
  case (snoc x xs)
  show ?case
  proof (cases "k = length xs")
    case True
    then show ?thesis by (simp add: filter_index_snoc filter_index_ge)
  next
    case False
    with snoc.prems have "k < length xs" by simp
    with snoc.IH False show ?thesis by (simp add: filter_index_snoc)
  qed
qed

lemma length_filter_index:
  "k < length xs \<Longrightarrow> length (filter_index xs k) = length xs - 1"
  by (simp add: filter_index_eq)

lemma intersectingBox_snoc:
  "intersectingBox props (xs @ [x]) np =
    (if item_id x \<noteq> item_id (data props) \<and> intersects props np x
     then Some (x, length xs) else intersectingBox props xs np)"
  unfolding intersectingBox_def zip_upt_snoc by (simp add: scan_step_def)

lemma intersectingBox_Some:
  "intersectingBox props xs np = Some (ib, index) \<Longrightarrow>
     index < length xs \<and> ib = xs ! index \<and> item_id ib \<noteq> item_id (data props)
     \<and> intersects props np ib
     \<and> (\<forall>j. index < j \<and> j < length xs \<longrightarrow>
           \<not> (item_id (xs ! j) \<noteq> item_id (data props) \<and> intersects props np (xs ! j)))"
proof (induction xs rule: rev_induct)
  case Nil
  then show ?case by (simp add: intersectingBox_def)
next
  case (snoc x xs)
  show ?case
  proof (cases "item_id x \<noteq> item_id (data props) \<and> intersects props np x")
    case True
    with snoc.prems show ?thesis by (auto simp: intersectingBox_snoc)
  next
    case False
    with snoc.prems have "intersectingBox props xs np = Some (ib, index)"
      by (simp add: intersectingBox_snoc)
    from snoc.IH[OF this] False show ?thesis
      by (auto simp: nth_append less_Suc_eq)
  qed
qed

lemma getNewPos_body_Recurse:
  "getNewPos_body props m boxes P npo = Recurse boxes' np' \<Longrightarrow> length boxes' < length boxes"
  by (auto simp: getNewPos_body_def Let_def length_filter_index
           split: option.splits prod.splits dest!: intersectingBox_Some)

function getNewPos ::
  "MoveProps \<Rightarrow> vec3 \<Rightarrow> SimBox list \<Rightarrow> vec3 \<Rightarrow> vec3 option \<Rightarrow> vec3" where
  "getNewPos props matrixPos boxes PosArray newPosArray =
    (case getNewPos_body props matrixPos boxes PosArray newPosArray of
       Return p \<Rightarrow> p
     | Recurse boxes' tempPos \<Rightarrow> getNewPos props matrixPos boxes' PosArray (Some tempPos))"
  by pat_completeness auto
termination
  by (relation "measure (\<lambda>(props, m, boxes, P, npo). length boxes)")
     (auto dest: getNewPos_body_Recurse)

declare getNewPos.simps [simp del]

text \<open>The number of self-calls that \<open>getNewPos\<close> makes before it returns.\<close>

function getNewPos_depth ::
  "MoveProps \<Rightarrow> vec3 \<Rightarrow> SimBox list \<Rightarrow> vec3 \<Rightarrow> vec3 option \<Rightarrow> nat" where
  "getNewPos_depth props matrixPos boxes PosArray newPosArray =
    (case getNewPos_body props matrixPos boxes PosArray newPosArray of
       Return p \<Rightarrow> 0
     | Recurse boxes' tempPos \<Rightarrow>
         Suc (getNewPos_depth props matrixPos boxes' PosArray (Some tempPos)))"
  by pat_completeness auto
termination
  by (relation "measure (\<lambda>(props, m, boxes, P, npo). length boxes)")
     (auto dest: getNewPos_body_Recurse)

declare getNewPos_depth.simps [simp del]



section \<open>Scene graph (Scene.tsx)\<close>

text \<open>
  \<open>allItems\<close> of \<open>Scene\<close>: the flat list that is rendered and handed to the resolver
  (\<open>map\<close> over the details, then \<open>flat\<close>); undefined when \<open>data\<close> is.
\<close>

definition flat_detail :: "Detail \<Rightarrow> SimBox list" where
  "flat_detail detail =
    (case detail of SubPallet p \<Rightarrow> [Pallet p] | Order ord \<Rightarrow> map Product (products ord))"

definition flat_details :: "Detail list \<Rightarrow> SimBox list" where
  "flat_details ds = concat (map flat_detail ds)"

definition Scene_allItems :: "SimBatch option \<Rightarrow> SimBox list option" where
  "Scene_allItems dat = map_option (\<lambda>d. flat_details (details d)) dat"

text \<open>
  \<open>setItem\<close>: the callback of \<open>data.details.map\<close>, then the function itself; it returns
  the new value of the \<open>data\<close> state (unchanged when \<open>data\<close> is undefined).
\<close>

definition setItem_detail :: "SimBox \<Rightarrow> Detail \<Rightarrow> Detail" where
  "setItem_detail item detail =
    (case item of
       Pallet ip \<Rightarrow>
         (case detail of
            Order ord \<Rightarrow> detail
          | SubPallet dp \<Rightarrow>
              if batchdetailid dp \<noteq> batchdetailid ip then detail else SubPallet ip)
     | Product ip \<Rightarrow>
         (case detail of
            SubPallet dp \<Rightarrow> detail
          | Order ord \<Rightarrow>
              Order (ord\<lparr>products :=
                map (\<lambda>product.
                       if batchdetailid product \<noteq> batchdetailid ip then product else ip)
                    (products ord)\<rparr>)))"

definition setItem :: "SimBatch option \<Rightarrow> SimBox \<Rightarrow> SimBatch option" where
  "setItem dat item =
    (case dat of
       None \<Rightarrow> None
     | Some d \<Rightarrow> Some (d\<lparr>details := map (setItem_detail item) (details d)\<rparr>))"

section \<open>Rotation commands (SimCanvas.tsx)\<close>



fun rotH :: "rotation \<Rightarrow> rotation" where
  "rotH R0 = R1"
| "rotH R1 = R0"
| "rotH R2 = R3"
| "rotH R3 = R2"
| "rotH R4 = R5"
| "rotH R5 = R4"

fun rotV :: "rotation \<Rightarrow> rotation" where
  "rotV R0 = R4"
| "rotV R1 = R3"
| "rotV R2 = R5"
| "rotV R3 = R1"
| "rotV R4 = R0"
| "rotV R5 = R2"

text \<open>
  The two buttons are rendered under \<open>data && selectedItem !== undefined && isEdit\<close>, the
  second one also under \<open>selectedItem.mastertype !== "sim_batch"\<close>.
\<close>

definition rotH_button :: "SimBatch option \<Rightarrow> SimBox option \<Rightarrow> bool \<Rightarrow> bool" where
  "rotH_button dat selectedItem isEdit = (dat \<noteq> None \<and> selectedItem \<noteq> None \<and> isEdit)"

definition rotV_button :: "SimBatch option \<Rightarrow> SimBox option \<Rightarrow> bool \<Rightarrow> bool" where
  "rotV_button dat selectedItem isEdit =
    (dat \<noteq> None \<and> selectedItem \<noteq> None \<and> isEdit
     \<and> (case selectedItem of Some item \<Rightarrow> \<not> is_sim_batch item | None \<Rightarrow> False))"

text \<open>The click handlers; both run with \<open>data\<close> and \<open>selectedItem\<close> defined.\<close>

definition rotH_detail :: "SimBox \<Rightarrow> Detail \<Rightarrow> Detail" where
  "rotH_detail selectedItem detail =
    (case selectedItem of
       Pallet sp \<Rightarrow>
         (case detail of
            Order ord \<Rightarrow> detail
          | SubPallet dp \<Rightarrow>
              if batchdetailid dp \<noteq> batchdetailid sp then detail
              else SubPallet (dp\<lparr>rotation := rotH (rotation dp)\<rparr>))
     | Product sp \<Rightarrow>
         (case detail of
            SubPallet dp \<Rightarrow> detail
          | Order ord \<Rightarrow>
              Order (ord\<lparr>products :=
                map (\<lambda>product.
                       if batchdetailid product \<noteq> batchdetailid sp then product
                       else product\<lparr>rotation := rotH (rotation product)\<rparr>)
                    (products ord)\<rparr>)))"

definition rotH_onClick :: "SimBatch \<Rightarrow> SimBox \<Rightarrow> SimBatch" where
  "rotH_onClick dat selectedItem =
    dat\<lparr>details := map (rotH_detail selectedItem) (details dat)\<rparr>"

definition rotV_detail :: "SimBox \<Rightarrow> Detail \<Rightarrow> Detail" where
  "rotV_detail selectedItem detail =
    (case detail of
       SubPallet dp \<Rightarrow> detail
     | Order ord \<Rightarrow>
         Order (ord\<lparr>products :=
           map (\<lambda>product.
                  if batchdetailid product \<noteq> item_id selectedItem then product
                  else product\<lparr>rotation := rotV (rotation product)\<rparr>)
               (products ord)\<rparr>))"

definition rotV_onClick :: "SimBatch \<Rightarrow> SimBox \<Rightarrow> SimBatch" where
  "rotV_onClick dat selectedItem =
    dat\<lparr>details := map (rotV_detail selectedItem) (details dat)\<rparr>"

section \<open>Views of the batch tree\<close>

text \<open>
  The kind and id of an item, what remains of a detail without its items, an item with
  another rotation, the ids of all nodes of the tree, and the boxes nested in SubPallets.
\<close>

definition item_key :: "SimBox \<Rightarrow> bool \<times> int" where
  "item_key item = (is_sim_batch item, item_id item)"

definition order_shell :: "Detail \<Rightarrow> SimOrder option" where
  "order_shell detail =
    (case detail of Order ord \<Rightarrow> Some (ord\<lparr>products := []\<rparr>) | SubPallet p \<Rightarrow> None)"

definition set_rotation :: "rotation \<Rightarrow> SimBox \<Rightarrow> SimBox" where
  "set_rotation r item =
    (case item of
       Pallet p \<Rightarrow> Pallet (p\<lparr>rotation := r\<rparr>)
     | Product p \<Rightarrow> Product (p\<lparr>rotation := r\<rparr>))"

definition detail_ids :: "Detail \<Rightarrow> int list" where
  "detail_ids detail =
    (case detail of
       Order ord \<Rightarrow> map batchdetailid (products ord)
     | SubPallet p \<Rightarrow>
         batchdetailid p # concat (map (\<lambda>ord. map batchdetailid (products ord)) (orders p)))"

definition batch_ids :: "SimBatch \<Rightarrow> int list" where
  "batch_ids d = concat (map detail_ids (details d))"

definition nested_products :: "SimBatch \<Rightarrow> SimProduct list" where
  "nested_products d =
    concat (map (\<lambda>detail. case detail of
                             Order ord \<Rightarrow> []
                           | SubPallet p \<Rightarrow> concat (map products (orders p)))
                (details d))"

section \<open>Concrete items and scenes\<close>

text \<open>Items with the given id, length, width, height, position and rotation.\<close>

definition mkProduct :: "int \<Rightarrow> real \<Rightarrow> real \<Rightarrow> real \<Rightarrow> vec3 \<Rightarrow> rotation \<Rightarrow> SimProduct" where
  "mkProduct i l w h pos r =
    \<lparr>batchdetailid = i, masterid = 0, code = ''P'', name = ''box'',
     SimItem.length' = l, SimItem.width = w, SimItem.height = h, SimItem.color = ''red'',
     position = pos, rotation = r,
     maxstack = 1, isfragile = False, istop = False, notstack = False, issideUp = False,
     no = None, qtt = 1\<rparr>"

definition mkPallet ::
  "int \<Rightarrow> real \<Rightarrow> real \<Rightarrow> real \<Rightarrow> real \<Rightarrow> vec3 \<Rightarrow> rotation \<Rightarrow> SimOrder list \<Rightarrow> SimPallet" where
  "mkPallet i l w h lh pos r os =
    \<lparr>batchdetailid = i, masterid = 0, code = ''S'', name = ''pallet'',
     SimItem.length' = l, SimItem.width = w, SimItem.height = h, SimItem.color = ''blue'',
     position = pos, rotation = r,
     SimPallet.loadlength = l, SimPallet.loadwidth = w, SimPallet.loadheight = lh,
     orders = os\<rparr>"

definition mkOrder :: "int \<Rightarrow> SimProduct list \<Rightarrow> SimOrder" where
  "mkOrder i ps = \<lparr>orderid = i, ordername = ''order'', ordernumber = ''N'', products = ps\<rparr>"

definition mkBatch :: "Detail list \<Rightarrow> SimBatch" where
  "mkBatch ds =
    \<lparr>batchid = 1, batchname = ''batch'', batchtype = container,
     SimBatch.length' = 1000, SimBatch.width = 1000, SimBatch.height = 1000,
     SimBatch.loadlength = 1000, SimBatch.loadwidth = 1000, SimBatch.loadheight = 1000,
     SimBatch.color = ''grey'', details = ds\<rparr>"

text \<open>
  A container of 1000 x 1000 x 1000 rendered at scale 1000 with two boxes of side 200 on
  the floor: \<open>boxA\<close> in the middle and the dragged \<open>boxB\<close> beside it, at render
  position (3/10, 1/10, 0).
\<close>

definition boxA :: SimBox where
  "boxA = Product (mkProduct 1 200 200 200 (400, 400, 0) R0)"

definition boxB :: SimBox where
  "boxB = Product (mkProduct 2 200 200 200 (700, 400, 0) R0)"

definition sceneAB :: MoveProps where
  "sceneAB = \<lparr>allItems = [boxA, boxB], contSize = (1000, 1000, 1000), data = boxB,
              renderScale = 1000\<rparr>"

text \<open>The same container with a third box \<open>boxC\<close> flush against \<open>boxA\<close>.\<close>

definition boxC :: SimBox where
  "boxC = Product (mkProduct 3 200 200 200 (600, 400, 0) R0)"

definition sceneACB :: MoveProps where
  "sceneACB = \<lparr>allItems = [boxA, boxC, boxB], contSize = (1000, 1000, 1000), data = boxB,
               renderScale = 1000\<rparr>"




text \<open>
  A batch with a bare order of two boxes and a SubPallet that carries one box, and a
  replacement for that nested box at another position.
\<close>

definition nestedBox :: SimProduct where
  "nestedBox = mkProduct 5 30 20 10 (0, 0, 0) R0"

definition nestedBox_moved :: SimProduct where
  "nestedBox_moved = mkProduct 5 30 20 10 (50, 0, 0) R0"

definition batchMixed :: SimBatch where
  "batchMixed =
    mkBatch [Order (mkOrder 1 [mkProduct 1 200 200 200 (400, 400, 0) R0,
                               mkProduct 2 200 200 200 (700, 400, 0) R0]),
             SubPallet (mkPallet 3 120 80 15 100 (0, 0, 0) R0 [mkOrder 2 [nestedBox]])]"

section \<open>Auxiliary facts about the resolver\<close>


lemma intersectingBox_last:
  "index < length xs \<Longrightarrow>
   item_id (xs ! index) \<noteq> item_id (data props) \<and> intersects props np (xs ! index) \<Longrightarrow>
   \<forall>j. index < j \<and> j < length xs \<longrightarrow>
       \<not> (item_id (xs ! j) \<noteq> item_id (data props) \<and> intersects props np (xs ! j)) \<Longrightarrow>
   intersectingBox props xs np = Some (xs ! index, index)"
proof (induction xs rule: rev_induct)
  case Nil
  then show ?case by simp
next
  case (snoc x xs)
  show ?case
  proof (cases "index = length xs")
    case True
    with snoc.prems(2) show ?thesis by (simp add: intersectingBox_snoc)
  next
    case False
    with snoc.prems(1) have lt: "index < length xs" by simp
    from snoc.prems(3) lt
    have nx: "\<not> (item_id x \<noteq> item_id (data props) \<and> intersects props np x)"
      by (auto dest: spec[where x = "length xs"])
    from snoc.prems(2) lt
    have hit: "item_id (xs ! index) \<noteq> item_id (data props) \<and> intersects props np (xs ! index)"
      by (simp add: nth_append)
    have later: "\<forall>j. index < j \<and> j < length xs \<longrightarrow>
       \<not> (item_id (xs ! j) \<noteq> item_id (data props) \<and> intersects props np (xs ! j))"
    proof (intro allI impI)
      fix j assume j: "index < j \<and> j < length xs"
      with snoc.prems(3) have
        "\<not> (item_id ((xs @ [x]) ! j) \<noteq> item_id (data props)
            \<and> intersects props np ((xs @ [x]) ! j))"
        by simp
      with j show "\<not> (item_id (xs ! j) \<noteq> item_id (data props) \<and> intersects props np (xs ! j))"
        by (simp add: nth_append)
    qed
    from snoc.IH[OF lt hit later] nx lt show ?thesis
      by (simp add: intersectingBox_snoc nth_append)
  qed
qed















lemma body_Recurse_cases:
  assumes "getNewPos_body props m boxes P npo = Recurse boxes' np'"
  shows "\<exists>ib index. intersectingBox props boxes (case npo of None \<Rightarrow> P | Some n \<Rightarrow> n)
                       = Some (ib, index)
                    \<and> index < length boxes \<and> ib = boxes ! index
                    \<and> item_id ib \<noteq> item_id (data props)
                    \<and> boxes' = filter_index boxes index"
proof (cases "intersectingBox props boxes (case npo of None \<Rightarrow> P | Some n \<Rightarrow> n)")
  case None
  with assms show ?thesis by (simp add: getNewPos_body_def)
next
  case (Some a)
  obtain ib index where a: "a = (ib, index)" by (cases a)
  from Some a intersectingBox_Some[of props boxes _ ib index]
  have "index < length boxes \<and> ib = boxes ! index \<and> item_id ib \<noteq> item_id (data props)"
    by simp
  moreover from assms Some a have "boxes' = filter_index boxes index"
    by (auto simp: getNewPos_body_def split: option.splits)
  ultimately show ?thesis using Some a by auto
qed

lemma length_filter_others:
  assumes k: "k < length xs" and p: "Q (xs ! k)"
  shows "Suc (length (filter Q (filter_index xs k))) = length (filter Q xs)"
proof -
  from id_take_nth_drop[OF k]
  have "filter Q xs = filter Q (take k xs @ xs ! k # drop (Suc k) xs)" by (rule arg_cong)
  also have "\<dots> = filter Q (take k xs) @ xs ! k # filter Q (drop (Suc k) xs)"
    using p by simp
  finally have "length (filter Q xs)
      = Suc (length (filter Q (take k xs)) + length (filter Q (drop (Suc k) xs)))"
    by simp
  then show ?thesis by (simp add: filter_index_eq[OF k])
qed

lemma getNewPos_depth_bound:
  "getNewPos_depth props m boxes P npo
     \<le> length (filter (\<lambda>b. item_id b \<noteq> item_id (data props)) boxes)"
proof (induction props m boxes P npo rule: getNewPos_depth.induct)
  case (1 props m boxes P npo)
  show ?case
  proof (cases "getNewPos_body props m boxes P npo")
    case (Return p)
    then show ?thesis by (subst getNewPos_depth.simps) simp
  next
    case (Recurse bs t)
    from body_Recurse_cases[OF Recurse] obtain ib index where
      idx: "index < length boxes" and o: "item_id (boxes ! index) \<noteq> item_id (data props)"
      and bs: "bs = filter_index boxes index"
      by auto
    from length_filter_others[of index boxes "\<lambda>b. item_id b \<noteq> item_id (data props)", OF idx o] bs
    have "Suc (length (filter (\<lambda>b. item_id b \<noteq> item_id (data props)) bs))
            = length (filter (\<lambda>b. item_id b \<noteq> item_id (data props)) boxes)"
      by simp
    moreover from "1.IH"[OF Recurse]
    have "getNewPos_depth props m bs P (Some t)
            \<le> length (filter (\<lambda>b. item_id b \<noteq> item_id (data props)) bs)" .
    moreover have "getNewPos_depth props m boxes P npo
            = Suc (getNewPos_depth props m bs P (Some t))"
      using Recurse by (subst getNewPos_depth.simps) simp
    ultimately show ?thesis by simp
  qed
qed



section \<open>Auxiliary facts about the batch tree\<close>

lemma map_update_unique:
  assumes d: "distinct (map key xs)" and i: "i < length xs" and k: "key (xs ! i) = k"
  shows "map (\<lambda>x. if key x = k then f x else x) xs = xs[i := f (xs ! i)]"
proof (rule nth_equalityI)
  show "length (map (\<lambda>x. if key x = k then f x else x) xs) = length (xs[i := f (xs ! i)])"
    by simp
next
  fix j assume "j < length (map (\<lambda>x. if key x = k then f x else x) xs)"
  then have j: "j < length xs" by simp
  show "map (\<lambda>x. if key x = k then f x else x) xs ! j = xs[i := f (xs ! i)] ! j"
  proof (cases "j = i")
    case True
    with i k show ?thesis by simp
  next
    case False
    from d i j False have "map key xs ! j \<noteq> map key xs ! i"
      by (simp add: nth_eq_iff_index_eq del: nth_map)
    with i j k have "key (xs ! j) \<noteq> k" by simp
    with j False show ?thesis by simp
  qed
qed

lemma flat_details_map:
  "(\<And>detail. flat_detail (f detail) = map g (flat_detail detail)) \<Longrightarrow>
     flat_details (map f ds) = map g (flat_details ds)"
  by (induction ds) (simp_all add: flat_details_def)

lemma flat_setItem_detail:
  "flat_detail (setItem_detail item detail)
     = map (\<lambda>x. if item_key x = item_key item then item else x) (flat_detail detail)"
  by (cases item; cases detail)
     (auto simp: flat_detail_def setItem_detail_def item_key_def)

lemma shell_setItem_detail:
  "order_shell (setItem_detail item detail) = order_shell detail"
  by (cases item; cases detail) (auto simp: order_shell_def setItem_detail_def)

lemma flat_rotH_detail:
  "flat_detail (rotH_detail sel detail)
     = map (\<lambda>x. if item_key x = item_key sel
                 then set_rotation (rotH (item_rotation x)) x else x) (flat_detail detail)"
  by (cases sel; cases detail)
     (auto simp: flat_detail_def rotH_detail_def item_key_def set_rotation_def)

lemma shell_rotH_detail:
  "order_shell (rotH_detail sel detail) = order_shell detail"
  by (cases sel; cases detail) (auto simp: order_shell_def rotH_detail_def)

lemma flat_rotV_detail:
  "\<not> is_sim_batch sel \<Longrightarrow>
   flat_detail (rotV_detail sel detail)
     = map (\<lambda>x. if item_key x = item_key sel
                 then set_rotation (rotV (item_rotation x)) x else x) (flat_detail detail)"
  by (cases sel; cases detail)
     (auto simp: flat_detail_def rotV_detail_def item_key_def set_rotation_def)

lemma shell_rotV_detail:
  "order_shell (rotV_detail sel detail) = order_shell detail"
  by (cases detail) (auto simp: order_shell_def rotV_detail_def)

lemma map_products_id:
  "i \<notin> set (map batchdetailid ps) \<Longrightarrow>
     map (\<lambda>product. if batchdetailid product \<noteq> i then product else q) ps = ps"
  by (induction ps) auto

lemma setItem_detail_unknown:
  "item_id item \<notin> set (detail_ids detail) \<Longrightarrow> setItem_detail item detail = detail"
  by (cases item; cases detail)
     (auto simp: setItem_detail_def detail_ids_def map_products_id simp del: set_map)

lemma setItem_details_unknown:
  "item_id item \<notin> set (concat (map detail_ids ds)) \<Longrightarrow> map (setItem_detail item) ds = ds"
  by (induction ds) (simp_all add: setItem_detail_unknown)

section \<open>Rotated dimensions\<close>

text \<open>
  Claim C5.  For a Box \<open>p\<close> and a SubPallet \<open>q\<close> and each of the six rotation codes,
  \<open>getRotDim\<close> returns the triple of the table 0:(L,H,W), 1:(W,H,L), 2:(H,L,W),
  3:(W,L,H), 4:(L,W,H), 5:(H,W,L), where H is the height of a Box and height plus load
  height of a SubPallet.  The result is always a permutation of (L,H,W), so positive
  inputs give positive extents, and a Box with (L,W,H) = (30,20,10) gives (30,10,20)
  at code 0 and (20,10,30) at code 1.
\<close>

theorem getRotDim_table:
  fixes p :: SimProduct and q :: SimPallet and item :: SimBox
  shows
  "getRotDim (Product (p\<lparr>rotation := R0\<rparr>))
       = (SimItem.length' p, SimItem.height p, SimItem.width p)
   \<and> getRotDim (Product (p\<lparr>rotation := R1\<rparr>))
       = (SimItem.width p, SimItem.height p, SimItem.length' p)
   \<and> getRotDim (Product (p\<lparr>rotation := R2\<rparr>))
       = (SimItem.height p, SimItem.length' p, SimItem.width p)
   \<and> getRotDim (Product (p\<lparr>rotation := R3\<rparr>))
       = (SimItem.width p, SimItem.length' p, SimItem.height p)
   \<and> getRotDim (Product (p\<lparr>rotation := R4\<rparr>))
       = (SimItem.length' p, SimItem.width p, SimItem.height p)
   \<and> getRotDim (Product (p\<lparr>rotation := R5\<rparr>))
       = (SimItem.height p, SimItem.width p, SimItem.length' p)
   \<and> getRotDim (Pallet (q\<lparr>rotation := R0\<rparr>))
       = (SimItem.length' q, SimItem.height q + SimPallet.loadheight q, SimItem.width q)
   \<and> getRotDim (Pallet (q\<lparr>rotation := R1\<rparr>))
       = (SimItem.width q, SimItem.height q + SimPallet.loadheight q, SimItem.length' q)
   \<and> getRotDim (Pallet (q\<lparr>rotation := R2\<rparr>))
       = (SimItem.height q + SimPallet.loadheight q, SimItem.length' q, SimItem.width q)
   \<and> getRotDim (Pallet (q\<lparr>rotation := R3\<rparr>))
       = (SimItem.width q, SimItem.length' q, SimItem.height q + SimPallet.loadheight q)
   \<and> getRotDim (Pallet (q\<lparr>rotation := R4\<rparr>))
       = (SimItem.length' q, SimItem.width q, SimItem.height q + SimPallet.loadheight q)
   \<and> getRotDim (Pallet (q\<lparr>rotation := R5\<rparr>))
       = (SimItem.height q + SimPallet.loadheight q, SimItem.width q, SimItem.length' q)
   \<and> (case getRotDim item of (dx, dy, dz) \<Rightarrow>
         mset [dx, dy, dz]
           = mset [item_length item,
                   item_height item
                     + (case item of Pallet r \<Rightarrow> SimPallet.loadheight r | Product r \<Rightarrow> 0),
                   item_width item])
   \<and> (0 < item_length item \<and> 0 < item_width item
        \<and> 0 < item_height item
              + (case item of Pallet r \<Rightarrow> SimPallet.loadheight r | Product r \<Rightarrow> 0)
        \<longrightarrow> (case getRotDim item of (dx, dy, dz) \<Rightarrow> 0 < dx \<and> 0 < dy \<and> 0 < dz))
   \<and> (SimItem.length' p = 30 \<and> SimItem.width p = 20 \<and> SimItem.height p = 10
        \<longrightarrow> getRotDim (Product (p\<lparr>rotation := R0\<rparr>)) = (30, 10, 20)
          \<and> getRotDim (Product (p\<lparr>rotation := R1\<rparr>)) = (20, 10, 30))"
  by (cases item; cases "item_rotation item") (simp_all add: getRotDim_def)

theorem getRotDim_table_witness:
  "(0 < item_length (Product (mkProduct 1 30 20 10 (0, 0, 0) R0))
    \<and> 0 < item_width (Product (mkProduct 1 30 20 10 (0, 0, 0) R0))
    \<and> 0 < item_height (Product (mkProduct 1 30 20 10 (0, 0, 0) R0)) + 0)
   \<and> getRotDim (Product (mkProduct 1 30 20 10 (0, 0, 0) R0)) = (30, 10, 20)
   \<and> getRotDim (Product (mkProduct 1 30 20 10 (0, 0, 0) R1)) = (20, 10, 30)
   \<and> getRotDim (Pallet (mkPallet 2 120 80 15 100 (0, 0, 0) R3 [])) = (80, 120, 115)"
  using getRotDim_table [of "mkProduct 1 30 20 10 (0, 0, 0) R0"
                            "mkPallet 2 120 80 15 100 (0, 0, 0) R0 []"
                            "Product (mkProduct 1 30 20 10 (0, 0, 0) R0)"]
  by (simp add: mkProduct_def mkPallet_def)

section \<open>Scale and position conversions\<close>



section \<open>The resolver\<close>



text \<open>
  Claim C3, as the code has it.  The scan does not stop at the first hit: when several
  items intersect the candidate box, the obstacle that \<open>getNewPos\<close> resolves is the
  last intersecting item of the list, and that item is the one removed for the
  self-call.
\<close>

theorem intersectingBox_is_last:
  assumes "index < length boxes"
    and "item_id (boxes ! index) \<noteq> item_id (data props)"
    and "intersects props np (boxes ! index)"
    and "\<forall>j. index < j \<and> j < length boxes \<longrightarrow>
           \<not> (item_id (boxes ! j) \<noteq> item_id (data props) \<and> intersects props np (boxes ! j))"
  shows "intersectingBox props boxes np = Some (boxes ! index, index)
    \<and> getNewPos_body props matrixPos boxes PosArray (Some np)
        = (case min_intersection props (boxes ! index) PosArray np of
             None \<Rightarrow> Recurse (filter_index boxes index) matrixPos
           | Some (mi, d) \<Rightarrow>
               Recurse (filter_index boxes index)
                 (tempPosArray props (boxes ! index) np mi))"
proof -
  from assms have "intersectingBox props boxes np = Some (boxes ! index, index)"
    by (intro intersectingBox_last) simp_all
  then show ?thesis by (simp add: getNewPos_body_def)
qed

theorem intersectingBox_is_last_witness:
  "length [boxA, boxC, boxB] = 3
   \<and> item_id ([boxA, boxC, boxB] ! 1) \<noteq> item_id (data sceneACB)
   \<and> intersects sceneACB (1 / 10, 1 / 10, 0) ([boxA, boxC, boxB] ! 0)
   \<and> intersects sceneACB (1 / 10, 1 / 10, 0) ([boxA, boxC, boxB] ! 1)
   \<and> item_id ([boxA, boxC, boxB] ! 2) = item_id (data sceneACB)
   \<and> intersectingBox sceneACB [boxA, boxC, boxB] (1 / 10, 1 / 10, 0)
       = Some ([boxA, boxC, boxB] ! 1, 1)"
proof -
  have h0: "length [boxA, boxC, boxB] = 3" by simp
  have h1: "(1::nat) < length [boxA, boxC, boxB]" by simp
  have h2: "item_id ([boxA, boxC, boxB] ! 1) \<noteq> item_id (data sceneACB)" by code_simp
  have h3: "intersects sceneACB (1 / 10, 1 / 10, 0) ([boxA, boxC, boxB] ! 1)" by code_simp
  have h5: "intersects sceneACB (1 / 10, 1 / 10, 0) ([boxA, boxC, boxB] ! 0)" by code_simp
  have h6: "item_id ([boxA, boxC, boxB] ! 2) = item_id (data sceneACB)" by code_simp
  have h4: "\<forall>j. 1 < j \<and> j < length [boxA, boxC, boxB] \<longrightarrow>
           \<not> (item_id ([boxA, boxC, boxB] ! j) \<noteq> item_id (data sceneACB)
              \<and> intersects sceneACB (1 / 10, 1 / 10, 0) ([boxA, boxC, boxB] ! j))"
  proof (intro allI impI)
    fix j :: nat
    assume "1 < j \<and> j < length [boxA, boxC, boxB]"
    then have j: "j = 2" by simp
    with h6 show "\<not> (item_id ([boxA, boxC, boxB] ! j) \<noteq> item_id (data sceneACB)
              \<and> intersects sceneACB (1 / 10, 1 / 10, 0) ([boxA, boxC, boxB] ! j))"
      by simp
  qed
  from intersectingBox_is_last [OF h1 h2 h3 h4, of "boxPos sceneACB" "(1 / 10, 1 / 10, 0)"]
    h0 h2 h3 h5 h6
  show ?thesis by blast
qed

text \<open>
  With \<open>boxA\<close> and \<open>boxC\<close> both under the target, the scan yields \<open>boxC\<close> at index 1,
  not \<open>boxA\<close> at index 0, and the correction is the one against \<open>boxC\<close>.
\<close>

theorem first_overlapping_counterexample:
  "intersects sceneACB (1 / 10, 1 / 10, 0) boxA
   \<and> intersects sceneACB (1 / 10, 1 / 10, 0) boxC
   \<and> item_id boxA \<noteq> item_id (data sceneACB)
   \<and> intersectingBox sceneACB [boxA, boxC, boxB] (1 / 10, 1 / 10, 0) = Some (boxC, 1)
   \<and> getNewPos_body sceneACB (boxPos sceneACB) [boxA, boxC, boxB] (1 / 10, 1 / 10, 0) None
       = Recurse [boxA, boxB] (0, 1 / 10, 0)"
  by code_simp







text \<open>
  Claim C10.  Every self-call of \<open>getNewPos\<close>, after a correction or on the fall-back,
  passes the list with the current obstacle (an item other than the dragged one)
  removed, so the list gets shorter by one; the number of self-calls is at most the
  number of other items of the list, and \<open>getNewPos\<close> is a total function satisfying
  its recursion equation on every input.
\<close>

theorem getNewPos_terminates:
  "(getNewPos_body props matrixPos boxes PosArray newPosArray = Recurse boxes' tempPos
      \<longrightarrow> (\<exists>index < length boxes.
             item_id (boxes ! index) \<noteq> item_id (data props)
             \<and> boxes' = filter_index boxes index
             \<and> boxes' = take index boxes @ drop (Suc index) boxes
             \<and> Suc (length boxes') = length boxes))
   \<and> getNewPos_depth props matrixPos boxes PosArray newPosArray
        \<le> length (filter (\<lambda>b. item_id b \<noteq> item_id (data props)) boxes)
   \<and> getNewPos props matrixPos boxes PosArray newPosArray
        = (case getNewPos_body props matrixPos boxes PosArray newPosArray of
             Return p \<Rightarrow> p
           | Recurse bs t \<Rightarrow> getNewPos props matrixPos bs PosArray (Some t))"
proof (intro conjI impI)
  assume r: "getNewPos_body props matrixPos boxes PosArray newPosArray = Recurse boxes' tempPos"
  from body_Recurse_cases[OF r] obtain ib index where
    idx: "index < length boxes" and o: "item_id (boxes ! index) \<noteq> item_id (data props)"
    and bs: "boxes' = filter_index boxes index"
    by auto
  from idx bs have "boxes' = take index boxes @ drop (Suc index) boxes"
    by (simp add: filter_index_eq)
  moreover from idx bs have "Suc (length boxes') = length boxes"
    by (simp add: length_filter_index)
  ultimately show "\<exists>index < length boxes.
             item_id (boxes ! index) \<noteq> item_id (data props)
             \<and> boxes' = filter_index boxes index
             \<and> boxes' = take index boxes @ drop (Suc index) boxes
             \<and> Suc (length boxes') = length boxes"
    using idx o bs by blast
next
  show "getNewPos_depth props matrixPos boxes PosArray newPosArray
        \<le> length (filter (\<lambda>b. item_id b \<noteq> item_id (data props)) boxes)"
    by (rule getNewPos_depth_bound)
next
  show "getNewPos props matrixPos boxes PosArray newPosArray
        = (case getNewPos_body props matrixPos boxes PosArray newPosArray of
             Return p \<Rightarrow> p
           | Recurse bs t \<Rightarrow> getNewPos props matrixPos bs PosArray (Some t))"
    by (rule getNewPos.simps)
qed

theorem getNewPos_terminates_witness:
  "getNewPos_body sceneAB (boxPos sceneAB) [boxA, boxB] (3 / 20, 1 / 10, 0) None
      = Recurse [boxB] (1 / 5, 1 / 10, 0)
   \<and> (\<exists>index < length [boxA, boxB].
         item_id ([boxA, boxB] ! index) \<noteq> item_id (data sceneAB)
         \<and> [boxB] = filter_index [boxA, boxB] index
         \<and> [boxB] = take index [boxA, boxB] @ drop (Suc index) [boxA, boxB]
         \<and> Suc (length [boxB]) = length [boxA, boxB])
   \<and> getNewPos_depth sceneAB (boxPos sceneAB) [boxA, boxB] (3 / 20, 1 / 10, 0) None = 1
   \<and> getNewPos_depth sceneAB (boxPos sceneAB) [boxA, boxB] (3 / 20, 1 / 10, 0) None
        \<le> length (filter (\<lambda>b. item_id b \<noteq> item_id (data sceneAB)) [boxA, boxB])"
proof -
  have h: "getNewPos_body sceneAB (boxPos sceneAB) [boxA, boxB] (3 / 20, 1 / 10, 0) None
      = Recurse [boxB] (1 / 5, 1 / 10, 0)"
    by code_simp
  have d: "getNewPos_depth sceneAB (boxPos sceneAB) [boxA, boxB] (3 / 20, 1 / 10, 0) None = 1"
    by code_simp
  from getNewPos_terminates [of sceneAB "boxPos sceneAB" "[boxA, boxB]"
         "(3 / 20, 1 / 10, 0)" None "[boxB]" "(1 / 5, 1 / 10, 0)"] h d
  show ?thesis by blast
qed

section \<open>Patching the batch tree\<close>

text \<open>
  Claim C2, as the code has it.  \<open>setItem\<close> looks at the top level only: a SubPallet
  replaces the SubPallet details with its id, a Box replaces the Boxes with its id in
  the bare orders.  Every top-level item of the kind and id of the new item is replaced
  by the new item (exactly the one at its index when kinds and ids are unique in the flat
  list), every other item, every order header and every other field of the batch stays
  as it is, and a Box nested in the orders of a SubPallet is never patched.
\<close>

theorem setItem_patch:
  "\<exists>d'. setItem (Some d) item = Some d'
     \<and> d'\<lparr>details := details d\<rparr> = d
     \<and> map order_shell (details d') = map order_shell (details d)
     \<and> map flat_detail (details d')
         = map (map (\<lambda>x. if item_key x = item_key item then item else x))
               (map flat_detail (details d))
     \<and> (distinct (map item_key (flat_details (details d)))
          \<and> i < length (flat_details (details d))
          \<and> item_key (flat_details (details d) ! i) = item_key item
         \<longrightarrow> flat_details (details d') = (flat_details (details d))[i := item])
     \<and> (\<not> is_sim_batch item \<longrightarrow> nested_products d' = nested_products d)"
proof -
  let ?d' = "d\<lparr>details := map (setItem_detail item) (details d)\<rparr>"
  have 1: "setItem (Some d) item = Some ?d'" by (simp add: setItem_def)
  have 2: "?d'\<lparr>details := details d\<rparr> = d" by simp
  have 3: "map order_shell (details ?d') = map order_shell (details d)"
    by (simp add: shell_setItem_detail)
  have 4: "map flat_detail (details ?d')
         = map (map (\<lambda>x. if item_key x = item_key item then item else x))
               (map flat_detail (details d))"
    by (simp add: flat_setItem_detail)
  have fl: "flat_details (details ?d')
         = map (\<lambda>x. if item_key x = item_key item then item else x)
               (flat_details (details d))"
    using flat_details_map[of "setItem_detail item", OF flat_setItem_detail] by simp
  have 5: "flat_details (details ?d') = (flat_details (details d))[i := item]"
    if "distinct (map item_key (flat_details (details d)))"
      and "i < length (flat_details (details d))"
      and "item_key (flat_details (details d) ! i) = item_key item"
    using map_update_unique[OF that, of "\<lambda>x. item"] fl by simp
  have 6: "nested_products ?d' = nested_products d" if "\<not> is_sim_batch item"
  proof -
    have "\<And>detail. (case setItem_detail item detail of Order ord \<Rightarrow> []
                      | SubPallet p \<Rightarrow> concat (map products (orders p)))
                   = (case detail of Order ord \<Rightarrow> []
                      | SubPallet p \<Rightarrow> concat (map products (orders p)))"
      using that by (cases item; case_tac detail) (auto simp: setItem_detail_def)
    then show ?thesis by (simp add: nested_products_def comp_def)
  qed
  from 1 2 3 4 5 6 show ?thesis by auto
qed

theorem setItem_patch_witness:
  "(distinct (map item_key (flat_details (details batchMixed)))
    \<and> 1 < length (flat_details (details batchMixed))
    \<and> item_key (flat_details (details batchMixed) ! 1)
        = item_key (Product (mkProduct 2 200 200 200 (100, 400, 0) R0))
    \<and> \<not> is_sim_batch (Product (mkProduct 2 200 200 200 (100, 400, 0) R0)))
   \<and> (\<exists>d'. setItem (Some batchMixed) (Product (mkProduct 2 200 200 200 (100, 400, 0) R0))
              = Some d'
          \<and> flat_details (details d')
              = (flat_details (details batchMixed))
                  [1 := Product (mkProduct 2 200 200 200 (100, 400, 0) R0)]
          \<and> nested_products d' = nested_products batchMixed)"
proof -
  have h: "distinct (map item_key (flat_details (details batchMixed)))
    \<and> 1 < length (flat_details (details batchMixed))
    \<and> item_key (flat_details (details batchMixed) ! 1)
        = item_key (Product (mkProduct 2 200 200 200 (100, 400, 0) R0))"
    by code_simp
  have k: "\<not> is_sim_batch (Product (mkProduct 2 200 200 200 (100, 400, 0) R0))"
    by simp
  from setItem_patch [of batchMixed "Product (mkProduct 2 200 200 200 (100, 400, 0) R0)" 1]
    h k
  show ?thesis by blast
qed

text \<open>
  The id of \<open>nestedBox\<close> occurs in the tree, inside a SubPallet, and patching with a
  replacement that carries this id returns the batch as it was, the old box included.
\<close>

theorem setItem_nested_counterexample:
  "item_id (Product nestedBox_moved) \<in> set (batch_ids batchMixed)
   \<and> nested_products batchMixed = [nestedBox]
   \<and> setItem (Some batchMixed) (Product nestedBox_moved) = Some batchMixed
   \<and> nestedBox_moved \<noteq> nestedBox"
  by code_simp

text \<open>
  Claim C9.  If the id of the item matches no node of the tree (no SubPallet, no Box of
  a bare order, no Box nested in a SubPallet), \<open>setItem\<close> returns a batch equal to the
  input batch.
\<close>

theorem setItem_unknown_id:
  assumes "item_id item \<notin> set (batch_ids d)"
  shows "setItem (Some d) item = Some d"
  using assms by (simp add: setItem_def batch_ids_def setItem_details_unknown)

theorem setItem_unknown_id_witness:
  "item_id (Product (mkProduct 99 30 20 10 (0, 0, 0) R0)) \<notin> set (batch_ids batchMixed)
   \<and> setItem (Some batchMixed) (Product (mkProduct 99 30 20 10 (0, 0, 0) R0))
       = Some batchMixed"
proof -
  have h: "item_id (Product (mkProduct 99 30 20 10 (0, 0, 0) R0)) \<notin> set (batch_ids batchMixed)"
    by code_simp
  from setItem_unknown_id [OF h] h show ?thesis by blast
qed

section \<open>Rotation commands\<close>

text \<open>
  Claim C8.  \<open>rotH\<close> pairs 0 with 1, 2 with 3, 4 with 5 and \<open>rotV\<close> pairs 0 with 4, 1 with
  3, 2 with 5, each its own inverse.  The vertical button is never rendered for a
  selected SubPallet, and for a selected Box it is rendered exactly when the horizontal
  one is.  Either handler leaves the fields of the batch and the order headers as they
  are and maps the items with the kind and id of the selected item to the same item with
  only \<open>rotation\<close> changed; with unique kinds and ids in the flat list that is the one
  item at the index of the selected item.
\<close>

theorem rotation_commands:
  "(rotH R0 = R1 \<and> rotH R1 = R0 \<and> rotH R2 = R3 \<and> rotH R3 = R2 \<and> rotH R4 = R5
      \<and> rotH R5 = R4)
   \<and> (rotV R0 = R4 \<and> rotV R4 = R0 \<and> rotV R1 = R3 \<and> rotV R3 = R1 \<and> rotV R2 = R5
      \<and> rotV R5 = R2)
   \<and> rotH (rotH r) = r \<and> rotV (rotV r) = r
   \<and> \<not> rotV_button dat (Some (Pallet q)) isEdit
   \<and> rotV_button dat (Some (Product p)) isEdit = rotH_button dat (Some (Product p)) isEdit
   \<and> (rotH_onClick d sel)\<lparr>details := details d\<rparr> = d
   \<and> map order_shell (details (rotH_onClick d sel)) = map order_shell (details d)
   \<and> map flat_detail (details (rotH_onClick d sel))
       = map (map (\<lambda>x. if item_key x = item_key sel
                        then set_rotation (rotH (item_rotation x)) x else x))
             (map flat_detail (details d))
   \<and> (distinct (map item_key (flat_details (details d)))
        \<and> i < length (flat_details (details d))
        \<and> item_key (flat_details (details d) ! i) = item_key sel
       \<longrightarrow> flat_details (details (rotH_onClick d sel))
            = (flat_details (details d))
                [i := set_rotation (rotH (item_rotation (flat_details (details d) ! i)))
                        (flat_details (details d) ! i)])
   \<and> (rotV_onClick d sel)\<lparr>details := details d\<rparr> = d
   \<and> map order_shell (details (rotV_onClick d sel)) = map order_shell (details d)
   \<and> (\<not> is_sim_batch sel
       \<longrightarrow> map flat_detail (details (rotV_onClick d sel))
            = map (map (\<lambda>x. if item_key x = item_key sel
                             then set_rotation (rotV (item_rotation x)) x else x))
                  (map flat_detail (details d)))
   \<and> (\<not> is_sim_batch sel
        \<and> distinct (map item_key (flat_details (details d)))
        \<and> i < length (flat_details (details d))
        \<and> item_key (flat_details (details d) ! i) = item_key sel
       \<longrightarrow> flat_details (details (rotV_onClick d sel))
            = (flat_details (details d))
                [i := set_rotation (rotV (item_rotation (flat_details (details d) ! i)))
                        (flat_details (details d) ! i)])"
proof -
  have inv: "rotH (rotH r) = r \<and> rotV (rotV r) = r" by (cases r) simp_all
  have btn: "\<not> rotV_button dat (Some (Pallet q)) isEdit
     \<and> rotV_button dat (Some (Product p)) isEdit = rotH_button dat (Some (Product p)) isEdit"
    by (simp add: rotV_button_def rotH_button_def)
  have h1: "(rotH_onClick d sel)\<lparr>details := details d\<rparr> = d"
    and v1: "(rotV_onClick d sel)\<lparr>details := details d\<rparr> = d"
    by (simp_all add: rotH_onClick_def rotV_onClick_def)
  have h2: "map order_shell (details (rotH_onClick d sel)) = map order_shell (details d)"
    and v2: "map order_shell (details (rotV_onClick d sel)) = map order_shell (details d)"
    by (simp_all add: rotH_onClick_def rotV_onClick_def shell_rotH_detail shell_rotV_detail)
  have h3: "map flat_detail (details (rotH_onClick d sel))
       = map (map (\<lambda>x. if item_key x = item_key sel
                        then set_rotation (rotH (item_rotation x)) x else x))
             (map flat_detail (details d))"
    by (simp add: rotH_onClick_def flat_rotH_detail)
  have hf: "flat_details (details (rotH_onClick d sel))
       = map (\<lambda>x. if item_key x = item_key sel
                   then set_rotation (rotH (item_rotation x)) x else x)
             (flat_details (details d))"
    using flat_details_map[of "rotH_detail sel", OF flat_rotH_detail]
    by (simp add: rotH_onClick_def)
  have h4: "flat_details (details (rotH_onClick d sel))
            = (flat_details (details d))
                [i := set_rotation (rotH (item_rotation (flat_details (details d) ! i)))
                        (flat_details (details d) ! i)]"
    if "distinct (map item_key (flat_details (details d)))"
      and "i < length (flat_details (details d))"
      and "item_key (flat_details (details d) ! i) = item_key sel"
    using map_update_unique[OF that, of "\<lambda>x. set_rotation (rotH (item_rotation x)) x"] hf
    by simp
  have v3: "map flat_detail (details (rotV_onClick d sel))
            = map (map (\<lambda>x. if item_key x = item_key sel
                             then set_rotation (rotV (item_rotation x)) x else x))
                  (map flat_detail (details d))"
    if "\<not> is_sim_batch sel"
    using that by (simp add: rotV_onClick_def flat_rotV_detail)
  have vf: "flat_details (details (rotV_onClick d sel))
       = map (\<lambda>x. if item_key x = item_key sel
                   then set_rotation (rotV (item_rotation x)) x else x)
             (flat_details (details d))"
    if "\<not> is_sim_batch sel"
    using flat_details_map[of "rotV_detail sel", OF flat_rotV_detail[OF that]]
    by (simp add: rotV_onClick_def)
  have v4: "flat_details (details (rotV_onClick d sel))
            = (flat_details (details d))
                [i := set_rotation (rotV (item_rotation (flat_details (details d) ! i)))
                        (flat_details (details d) ! i)]"
    if s: "\<not> is_sim_batch sel"
      and u: "distinct (map item_key (flat_details (details d)))"
        "i < length (flat_details (details d))"
        "item_key (flat_details (details d) ! i) = item_key sel"
    using map_update_unique[OF u, of "\<lambda>x. set_rotation (rotV (item_rotation x)) x"] vf[OF s]
    by simp
  from inv btn h1 h2 h3 h4 v1 v2 v3 v4 show ?thesis by simp
qed

theorem rotation_commands_witness:
  "(distinct (map item_key (flat_details (details batchMixed)))
    \<and> 1 < length (flat_details (details batchMixed))
    \<and> item_key (flat_details (details batchMixed) ! 1)
        = item_key (Product (mkProduct 2 200 200 200 (700, 400, 0) R0))
    \<and> \<not> is_sim_batch (Product (mkProduct 2 200 200 200 (700, 400, 0) R0)))
   \<and> flat_details (details (rotH_onClick batchMixed
                                (Product (mkProduct 2 200 200 200 (700, 400, 0) R0))))
       = (flat_details (details batchMixed))
           [1 := Product (mkProduct 2 200 200 200 (700, 400, 0) R1)]
   \<and> flat_details (details (rotV_onClick batchMixed
                                (Product (mkProduct 2 200 200 200 (700, 400, 0) R0))))
       = (flat_details (details batchMixed))
           [1 := Product (mkProduct 2 200 200 200 (700, 400, 0) R4)]"
proof -
  have h: "distinct (map item_key (flat_details (details batchMixed)))
    \<and> 1 < length (flat_details (details batchMixed))
    \<and> item_key (flat_details (details batchMixed) ! 1)
        = item_key (Product (mkProduct 2 200 200 200 (700, 400, 0) R0))"
    by code_simp
  have k: "\<not> is_sim_batch (Product (mkProduct 2 200 200 200 (700, 400, 0) R0))"
    by simp
  have e1: "set_rotation (rotH (item_rotation (flat_details (details batchMixed) ! 1)))
              (flat_details (details batchMixed) ! 1)
            = Product (mkProduct 2 200 200 200 (700, 400, 0) R1)"
    by code_simp
  have e2: "set_rotation (rotV (item_rotation (flat_details (details batchMixed) ! 1)))
              (flat_details (details batchMixed) ! 1)
            = Product (mkProduct 2 200 200 200 (700, 400, 0) R4)"
    by code_simp
  from rotation_commands [of R0 None "mkPallet 3 120 80 15 100 (0, 0, 0) R0 []" False
      "mkProduct 2 200 200 200 (700, 400, 0) R0" batchMixed
      "Product (mkProduct 2 200 200 200 (700, 400, 0) R0)" 1] h k e1 e2
  show ?thesis by simp
qed

end
